theory Spec2Isabelle
  imports Main
begin

section \<open>Semantic analysis for declarations (lib/Sema/TypeCheckDecl.cpp)\<close>

subsection \<open>Types, expressions, name specifiers, diagnostics\<close>

text \<open>
  Modelled from the spec: the type representation (swift/AST/Types.h is not part of the
  sources). The variants are those of the spec's Type Model: the unresolved placeholder
  (\<open>DependentType\<close>), the error sentinel, tuples of fields, function types and sum
  types (\<open>OneOfType\<close>), whose cases each optionally carry a payload type
  (\<open>ArgumentType\<close>, \<open>None\<close> being the null \<open>Type\<close>).
\<close>

datatype Type =
    DependentType
  | ErrorType
  | TupleType "Type list"
  | FunctionType Type Type
  | OneOfType "Type option list"

type_synonym SourceLoc = nat

text \<open>An expression, as far as this file reads it: its type (\<open>getType()\<close>).\<close>

record Expr =
  exprType :: Type
  exprNode :: nat

text \<open>
  \<open>DeclVarName\<close>: a simple name, or a parenthesised sequence of nested name
  specifiers (\<open>isSimple()\<close>, \<open>getElements()\<close>, \<open>getLocation()\<close>).
\<close>

datatype DeclVarName =
    SimpleName SourceLoc string
  | ComplexName SourceLoc "DeclVarName list"

text \<open>The diagnostics this file reports, with the arguments it passes.\<close>

datatype DiagID =
    invalid_index_in_element_ref string Type
  | while_converting_var_init
  | invalid_arg_count_for_operator
  | invalid_infix_left_input
  | infix_left_not_an_operator
  | infix_left_invalid_on_decls
  | binops_infix_left
  | name_matches_nontuple Type
  | varname_element_count_mismatch Type nat nat

datatype Diag = Diag SourceLoc DiagID

fun diagID :: "Diag \<Rightarrow> DiagID" where
  "diagID (Diag loc d) = d"

text \<open>
  What ends the whole run instead of returning: \<open>llvm_unreachable\<close>, a member call
  through a null \<open>Type\<close>, an array read out of range.
\<close>

datatype error =
    Unreachable string
  | NullTypeDeref
  | IndexOutOfRange

subsection \<open>Declarations\<close>

text \<open>
  \<open>DeclAttributes\<close>: \<open>Infix\<close> is the infix precedence data, \<open>None\<close> being the
  default-constructed \<open>InfixData()\<close>, for which \<open>isInfix()\<close> is false.
\<close>

record DeclAttributes =
  LSquareLoc :: SourceLoc
  Infix :: "nat option"

definition isInfix :: "DeclAttributes \<Rightarrow> bool" where
  "isInfix A = (Infix A \<noteq> None)"

datatype ValueDeclKind = VarDeclKind | FuncDeclKind | OneOfElementDeclKind | ArgDeclKind

text \<open>
  A \<open>ValueDecl\<close> with the fields this file reads and writes. \<open>Kind\<close> is what
  \<open>isa<VarDecl>\<close> and \<open>isa<FuncDecl>\<close> test; \<open>NestedName\<close> is the name specifier
  of a \<open>VarDecl\<close> (\<open>None\<close> is the null pointer).
\<close>

record ValueDecl =
  Kind :: ValueDeclKind
  LocStart :: SourceLoc
  isOperator :: bool
  Ty :: Type
  Init :: "Expr option"
  Attrs :: DeclAttributes
  NestedName :: "DeclVarName option"

text \<open>
  An \<open>ElementRefDecl\<close>: its own type, its name, the declaration it refers into and the
  access path.
\<close>

record ElementRefDecl =
  ERTy :: Type
  ERName :: string
  ERLocStart :: SourceLoc
  VD :: ValueDecl
  AccessPath :: "nat list"

datatype Decl =
    ImportDecl
  | TypeAliasDecl Type
  | ValueD ValueDecl
  | ElementRefD ElementRefDecl

subsection \<open>The services of the type checker\<close>

text \<open>
  The \<open>TypeChecker\<close> this file calls into is not part of the sources; its operations are
  parameters. Each returns \<open>True\<close> on failure, as in the source.
  \<^item> \<open>validateType\<close> on a declaration returns the failure flag and the type it leaves in
    the declaration;
  \<^item> \<open>validateTypeOfType\<close> is the overload on a type;
  \<^item> \<open>typeCheckExpression\<close> takes the expression (by reference) and the destination type
    (\<open>None\<close> is the null \<open>Type()\<close>) and returns the failure flag and the expression it
    leaves there.
  \<open>ElementRefDecl::getTypeForPath\<close> is a parameter too; \<open>None\<close> is the null type it
  returns for an invalid path.
\<close>

record TypeChecker =
  validateType :: "ValueDecl \<Rightarrow> bool \<times> Type"
  validateTypeOfType :: "Type \<Rightarrow> bool \<times> Type"
  typeCheckExpression :: "Expr \<Rightarrow> Type option \<Rightarrow> bool \<times> Expr"
  getTypeForPath :: "Type \<Rightarrow> nat list \<Rightarrow> Type option"

subsection \<open>validateAttributes\<close>

text \<open>
  The conversion of a \<open>size_t\<close> to the 32-bit \<open>int\<close>: the value modulo \<open>2^32\<close>,
  read as a signed number.
\<close>

definition sizeToInt :: "nat \<Rightarrow> int" where
  "sizeToInt n =
     (let m = int n mod 4294967296 in if m < 2147483648 then m else m - 4294967296)"

text \<open>
  The number of lexical arguments, an \<open>int\<close>: \<open>Fields.size()\<close> of the tuple that is
  the input of a function type, converted to \<open>int\<close>, and \<open>-1\<close> otherwise.
\<close>

fun NumArguments :: "Type \<Rightarrow> int" where
  "NumArguments (FunctionType (TupleType Fields) Result) = sizeToInt (length Fields)"
| "NumArguments T = -1"

definition clearInfix :: "DeclAttributes \<Rightarrow> DeclAttributes" where
  "clearInfix A = A\<lparr>Infix := None\<rparr>"

text \<open>
  Each \<open>if\<close> of the source after the early return reads the attributes as the ones
  before it left them.
\<close>

definition validateAttributes :: "ValueDecl \<Rightarrow> ValueDecl \<times> Diag list" where
  "validateAttributes D =
     (let A0 = Attrs D; n = NumArguments (Ty D) in
      if isOperator D \<and> (n = 0 \<or> n > 2) then
        (D\<lparr>Attrs := clearInfix A0\<rparr>, [Diag (LocStart D) invalid_arg_count_for_operator])
      else
        let (A1, d1) = (if isInfix A0 \<and> n \<noteq> 2
                        then (clearInfix A0, [Diag (LSquareLoc A0) invalid_infix_left_input])
                        else (A0, []));
            (A2, d2) = (if isInfix A1 \<and> \<not> isOperator D
                        then (clearInfix A1, [Diag (LocStart D) infix_left_not_an_operator])
                        else (A1, []));
            (A3, d3) = (if isInfix A2 \<and> Kind D \<noteq> VarDeclKind \<and> Kind D \<noteq> FuncDeclKind
                        then (clearInfix A2, [Diag (LocStart D) infix_left_invalid_on_decls])
                        else (A2, []));
            d4 = (if isOperator D \<and> \<not> isInfix A3 \<and> n \<noteq> 1
                  then [Diag (LocStart D) binops_infix_left] else [])
        in (D\<lparr>Attrs := A3\<rparr>, d1 @ d2 @ d3 @ d4))"

subsection \<open>visitValueDecl\<close>

text \<open>
  Returns the flag of the source (\<open>True\<close>: the declaration is invalid), the declaration
  as it is left and the diagnostics reported by this file.
\<close>

definition visitValueDecl :: "TypeChecker \<Rightarrow> ValueDecl \<Rightarrow> bool \<times> ValueDecl \<times> Diag list" where
  "visitValueDecl TC D0 =
     (let (failed, T) = validateType TC D0; D = D0\<lparr>Ty := T\<rparr> in
      if failed then (True, D\<lparr>Init := None\<rparr>, [])
      else
        (case Init D of
           None \<Rightarrow>
             if Ty D = DependentType then (True, D, [])
             else (let (D', ds) = validateAttributes D in (False, D', ds))
         | Some E \<Rightarrow>
             let DestTy = (if Ty D = DependentType then None else Some (Ty D));
                 (bad, E') = typeCheckExpression TC E DestTy;
                 D1 = D\<lparr>Init := Some E'\<rparr>;
                 (D2, d1) = (if \<not> bad then (D1\<lparr>Ty := exprType E'\<rparr>, [])
                             else if Kind D1 = VarDeclKind
                             then (D1, [Diag (LocStart D1) while_converting_var_init])
                             else (D1, []));
                 (D', ds) = validateAttributes D2
             in (False, D', d1 @ ds)))"

subsection \<open>validateVarName\<close>

text \<open>
  A single-element oneof is replaced by the argument type of its element, which is null
  when the element has none.
\<close>

fun singleElementArgument :: "Type \<Rightarrow> Type option" where
  "singleElementArgument (OneOfType [Elt]) = Elt"
| "singleElementArgument T = Some T"

text \<open>
  \<open>validateVarName\<close> returns \<open>True\<close> on a mismatch, with the diagnostics reported.
  Its callers pass the type of a declaration or of a tuple field, which is a type of the
  model, so the assertion on entry holds. \<open>validateVarNameLoop\<close> is the loop over the
  elements: it runs after the two sizes were found equal, so \<open>Fields[i]\<close> is never
  read out of range there.
\<close>

fun validateVarName :: "Type \<Rightarrow> DeclVarName \<Rightarrow> error + (bool \<times> Diag list)"
  and validateVarNameLoop :: "Type list \<Rightarrow> DeclVarName list \<Rightarrow> error + (bool \<times> Diag list)"
where
  "validateVarName T (SimpleName loc x) = Inr (False, [])"
| "validateVarName T (ComplexName loc Elements) =
     (if T = DependentType then Inr (False, [])
      else
        (case singleElementArgument T of
           None \<Rightarrow> Inl NullTypeDeref
         | Some T' \<Rightarrow>
             (case T' of
                TupleType Fields \<Rightarrow>
                  if length Elements \<noteq> length Fields
                  then Inr (True, [Diag loc (varname_element_count_mismatch T'
                                              (length Fields) (length Elements))])
                  else validateVarNameLoop Fields Elements
              | _ \<Rightarrow> Inr (True, [Diag loc (name_matches_nontuple T')]))))"
| "validateVarNameLoop Fields [] = Inr (False, [])"
| "validateVarNameLoop [] (N # Ns) = Inl IndexOutOfRange"
| "validateVarNameLoop (F # Fields) (N # Ns) =
     (case validateVarName F N of
        Inl e \<Rightarrow> Inl e
      | Inr (mismatch, ds) \<Rightarrow>
          if mismatch then Inr (True, ds)
          else
            (case validateVarNameLoop Fields Ns of
               Inl e \<Rightarrow> Inl e
             | Inr (mismatch', ds') \<Rightarrow> Inr (mismatch', ds @ ds')))"

text \<open>
  The types in which every single-element oneof has an argument type: on them
  \<open>validateVarName\<close> never goes through a null \<open>Type\<close>.
\<close>

fun argumentsPresent :: "Type \<Rightarrow> bool" where
  "argumentsPresent (TupleType Fields) = (\<forall>F \<in> set Fields. argumentsPresent F)"
| "argumentsPresent (OneOfType Elts) =
     (Elts \<noteq> [None]
      \<and> (\<forall>E \<in> set Elts. case E of None \<Rightarrow> True | Some T \<Rightarrow> argumentsPresent T))"
| "argumentsPresent (FunctionType Input Result) =
     (argumentsPresent Input \<and> argumentsPresent Result)"
| "argumentsPresent T = True"

subsection \<open>The visit methods and the dispatch\<close>

definition visitVarDecl :: "TypeChecker \<Rightarrow> ValueDecl \<Rightarrow> error + (ValueDecl \<times> Diag list)" where
  "visitVarDecl TC D0 =
     (let (invalid, D, ds) = visitValueDecl TC D0 in
      if invalid then Inr (D, ds)
      else
        (case NestedName D of
           None \<Rightarrow> Inr (D, ds)
         | Some Name \<Rightarrow>
             (case validateVarName (Ty D) Name of
                Inl e \<Rightarrow> Inl e
              | Inr (mismatch, ds') \<Rightarrow>
                  Inr (if mismatch then D\<lparr>NestedName := None\<rparr> else D, ds @ ds'))))"

definition visitFuncDecl :: "TypeChecker \<Rightarrow> ValueDecl \<Rightarrow> ValueDecl \<times> Diag list" where
  "visitFuncDecl TC D0 = (let (invalid, D, ds) = visitValueDecl TC D0 in (D, ds))"

text \<open>
  \<open>visitElementRefDecl\<close> returns the reference as it is left, the diagnostics and the
  calls of \<open>getTypeForPath\<close> it made, each with its two arguments.
\<close>

definition visitElementRefDecl ::
  "TypeChecker \<Rightarrow> ElementRefDecl \<Rightarrow> ElementRefDecl \<times> Diag list \<times> (Type \<times> nat list) list" where
  "visitElementRefDecl TC ERD =
     (if ERTy ERD \<noteq> DependentType then (ERD, [], [])
      else
        (case getTypeForPath TC (Ty (VD ERD)) (AccessPath ERD) of
           Some T \<Rightarrow> (ERD\<lparr>ERTy := T\<rparr>, [], [(Ty (VD ERD), AccessPath ERD)])
         | None \<Rightarrow>
             (ERD\<lparr>ERTy := ErrorType\<rparr>,
              [Diag (ERLocStart ERD)
                 (invalid_index_in_element_ref (ERName ERD) (Ty (VD ERD)))],
              [(Ty (VD ERD), AccessPath ERD)])))"

definition typeCheckDecl :: "TypeChecker \<Rightarrow> Decl \<Rightarrow> error + (Decl \<times> Diag list)" where
  "typeCheckDecl TC D =
     (case D of
        ImportDecl \<Rightarrow> Inr (ImportDecl, [])
      | TypeAliasDecl T \<Rightarrow> Inr (TypeAliasDecl (snd (validateTypeOfType TC T)), [])
      | ValueD V \<Rightarrow>
          (case Kind V of
             VarDeclKind \<Rightarrow>
               (case visitVarDecl TC V of
                  Inl e \<Rightarrow> Inl e
                | Inr (V', ds) \<Rightarrow> Inr (ValueD V', ds))
           | FuncDeclKind \<Rightarrow> (let (V', ds) = visitFuncDecl TC V in Inr (ValueD V', ds))
           | OneOfElementDeclKind \<Rightarrow> Inr (ValueD V, [])
           | ArgDeclKind \<Rightarrow> Inl (Unreachable ''ArgDecls should never exist in a statement''))
      | ElementRefD ERD \<Rightarrow>
          (let (ERD', ds, calls) = visitElementRefDecl TC ERD in Inr (ElementRefD ERD', ds)))"

subsection \<open>Sample services and declarations\<close>

text \<open>
  Modelled from the spec: \<open>ElementRefDecl::getTypeForPath\<close> (lib/AST, not part of the
  sources), used in the examples only: the path is walked through the type one structural
  index at a time, a tuple field index or the selection of a case's payload; a path
  that names no position of the type gives the null type.
\<close>

fun getTypeForPathModel :: "Type \<Rightarrow> nat list \<Rightarrow> Type option" where
  "getTypeForPathModel T [] = Some T"
| "getTypeForPathModel (TupleType Fields) (i # Path) =
     (if i < length Fields then getTypeForPathModel (Fields ! i) Path else None)"
| "getTypeForPathModel (OneOfType Elts) (i # Path) =
     (if i < length Elts
      then (case Elts ! i of None \<Rightarrow> None | Some T \<Rightarrow> getTypeForPathModel T Path)
      else None)"
| "getTypeForPathModel T (i # Path) = None"

text \<open>Services for the examples: they succeed or fail on every input.\<close>

definition validateTypeOk :: "ValueDecl \<Rightarrow> bool \<times> Type" where
  "validateTypeOk D = (False, Ty D)"

definition validateTypeFails :: "ValueDecl \<Rightarrow> bool \<times> Type" where
  "validateTypeFails D = (True, ErrorType)"

definition checkExpressionOk :: "Expr \<Rightarrow> Type option \<Rightarrow> bool \<times> Expr" where
  "checkExpressionOk E DestTy = (False, E)"

definition checkExpressionFails :: "Expr \<Rightarrow> Type option \<Rightarrow> bool \<times> Expr" where
  "checkExpressionFails E DestTy = (True, E)"

definition sampleTC ::
  "(ValueDecl \<Rightarrow> bool \<times> Type) \<Rightarrow> (Expr \<Rightarrow> Type option \<Rightarrow> bool \<times> Expr) \<Rightarrow> TypeChecker" where
  "sampleTC vt ce =
     \<lparr>validateType = vt, validateTypeOfType = Pair False,
      typeCheckExpression = ce, getTypeForPath = getTypeForPathModel\<rparr>"

definition unitType :: Type where
  "unitType = TupleType []"

definition binaryFunctionType :: Type where
  "binaryFunctionType = FunctionType (TupleType [unitType, unitType]) unitType"

definition unaryFunctionType :: Type where
  "unaryFunctionType = FunctionType (TupleType [unitType]) unitType"

text \<open>A binary operator function with infix data.\<close>

definition infixOperatorFunc :: ValueDecl where
  "infixOperatorFunc =
     \<lparr>Kind = FuncDeclKind, LocStart = 10, isOperator = True, Ty = binaryFunctionType,
      Init = None, Attrs = \<lparr>LSquareLoc = 5, Infix = Some 100\<rparr>, NestedName = None\<rparr>"

text \<open>
  A binary-operator declaration whose function type has \<open>2^32 + 2\<close> arguments, with
  infix data.
\<close>

definition wideOperatorFunc :: ValueDecl where
  "wideOperatorFunc =
     \<lparr>Kind = FuncDeclKind, LocStart = 10, isOperator = True,
      Ty = FunctionType (TupleType (replicate 4294967298 unitType)) unitType,
      Init = None, Attrs = \<lparr>LSquareLoc = 5, Infix = Some 100\<rparr>, NestedName = None\<rparr>"

text \<open>A one-argument function that is no operator, with infix data.\<close>

definition infixPlainFunc :: ValueDecl where
  "infixPlainFunc =
     \<lparr>Kind = FuncDeclKind, LocStart = 10, isOperator = False, Ty = unaryFunctionType,
      Init = None, Attrs = \<lparr>LSquareLoc = 5, Infix = Some 100\<rparr>, NestedName = None\<rparr>"

text \<open>
  A variable of the empty tuple type with an initializer of another type, infix data and
  the name specifier \<open>(a, b)\<close>; a function with the same initializer; an element
  reference into the variable.
\<close>

definition sampleInit :: Expr where
  "sampleInit = \<lparr>exprType = binaryFunctionType, exprNode = 0\<rparr>"

definition destructuredVar :: ValueDecl where
  "destructuredVar =
     \<lparr>Kind = VarDeclKind, LocStart = 20, isOperator = False, Ty = unitType,
      Init = Some sampleInit, Attrs = \<lparr>LSquareLoc = 15, Infix = Some 100\<rparr>,
      NestedName = Some (ComplexName 21 [SimpleName 22 ''a'', SimpleName 23 ''b''])\<rparr>"

definition funcWithInit :: ValueDecl where
  "funcWithInit =
     \<lparr>Kind = FuncDeclKind, LocStart = 40, isOperator = False, Ty = unitType,
      Init = Some sampleInit, Attrs = \<lparr>LSquareLoc = 35, Infix = None\<rparr>,
      NestedName = None\<rparr>"



definition emptyOneOfVar :: ValueDecl where
  "emptyOneOfVar =
     \<lparr>Kind = VarDeclKind, LocStart = 70, isOperator = False, Ty = OneOfType [None],
      Init = None, Attrs = \<lparr>LSquareLoc = 65, Infix = None\<rparr>,
      NestedName = Some (ComplexName 71 [SimpleName 72 ''e''])\<rparr>"



definition argumentDecl :: ValueDecl where
  "argumentDecl =
     \<lparr>Kind = ArgDeclKind, LocStart = 50, isOperator = False, Ty = unitType,
      Init = None, Attrs = \<lparr>LSquareLoc = 45, Infix = None\<rparr>, NestedName = None\<rparr>"

section \<open>Properties\<close>

subsection \<open>Facts about validateAttributes\<close>

lemma validateAttributes_Ty: "Ty (fst (validateAttributes D)) = Ty D"
  by (simp add: validateAttributes_def Let_def split: prod.splits if_splits)

lemma validateAttributes_frame:
  "fst (validateAttributes D) = D\<lparr>Attrs := Attrs (fst (validateAttributes D))\<rparr>"
  by (simp add: validateAttributes_def Let_def split: prod.splits if_splits)

lemma validateAttributes_Infix:
  "Infix (Attrs (fst (validateAttributes D))) =
     (if (Kind D = VarDeclKind \<or> Kind D = FuncDeclKind) \<and> isOperator D \<and> NumArguments (Ty D) = 2
      then Infix (Attrs D) else None)"
  by (simp add: validateAttributes_def Let_def isInfix_def clearInfix_def
      split: prod.splits if_splits)

lemma validateAttributes_no_conversion_diag:
  "while_converting_var_init \<notin> diagID ` set (snd (validateAttributes D))"
  by (auto simp add: validateAttributes_def Let_def split: prod.splits if_splits)

text \<open>
  The count is the number of fields as long as there are fewer than \<open>2^31\<close> of them;
  at \<open>2^31\<close> fields it is negative.
\<close>

lemma sizeToInt_exact: "n < 2147483648 \<Longrightarrow> sizeToInt n = int n"
  by (simp add: sizeToInt_def)

lemma NumArguments_wraps:
  "NumArguments (FunctionType (TupleType (replicate 2147483648 unitType)) unitType) =
     - 2147483648"
  by (simp add: sizeToInt_def)

lemma NumArguments_exact:
  "length Fields < 2147483648 \<Longrightarrow>
   NumArguments (FunctionType (TupleType Fields) Result) = int (length Fields)"
  by (simp add: sizeToInt_exact)

text \<open>
  C1, as the code has it, the argument count being the \<open>int\<close> the code computes
  (\<open>NumArguments\<close>). When the operator rule (an operator with a count of 0 or more
  than 2) triggers, its diagnostic is the only one. Otherwise the three infix rules
  are tried in order and only the first whose condition holds reports, since it clears
  the infix data the later ones test; the rule for non-infix operators is then evaluated
  on the attributes so left. In particular, infix data on a declaration whose count is
  not 2 and that is no operator gives the two-element-input diagnostic alone.
\<close>

theorem validateAttributes_rules:
  "snd (validateAttributes D) =
     (let n = NumArguments (Ty D); A = Attrs D in
      if isOperator D \<and> (n = 0 \<or> n > 2)
      then [Diag (LocStart D) invalid_arg_count_for_operator]
      else
        (if isInfix A \<and> n \<noteq> 2 then [Diag (LSquareLoc A) invalid_infix_left_input]
         else if isInfix A \<and> \<not> isOperator D then [Diag (LocStart D) infix_left_not_an_operator]
         else if isInfix A \<and> Kind D \<noteq> VarDeclKind \<and> Kind D \<noteq> FuncDeclKind
         then [Diag (LocStart D) infix_left_invalid_on_decls]
         else [])
        @ (if isOperator D \<and> n \<noteq> 1
              \<and> (\<not> isInfix A \<or> n \<noteq> 2 \<or> (Kind D \<noteq> VarDeclKind \<and> Kind D \<noteq> FuncDeclKind))
           then [Diag (LocStart D) binops_infix_left] else []))
   \<and> (isInfix (Attrs D) \<and> NumArguments (Ty D) \<noteq> 2 \<and> \<not> isOperator D \<longrightarrow>
        snd (validateAttributes D) = [Diag (LSquareLoc (Attrs D)) invalid_infix_left_input])"
  by (simp add: validateAttributes_def Let_def isInfix_def clearInfix_def
      split: prod.splits if_splits)

theorem validateAttributes_rules_witness:
  "isInfix (Attrs infixPlainFunc) \<and> NumArguments (Ty infixPlainFunc) \<noteq> 2
   \<and> \<not> isOperator infixPlainFunc
   \<and> snd (validateAttributes infixPlainFunc) = [Diag 5 invalid_infix_left_input]"
proof -
  have h: "isInfix (Attrs infixPlainFunc) \<and> NumArguments (Ty infixPlainFunc) \<noteq> 2
      \<and> \<not> isOperator infixPlainFunc"
    by (simp add: infixPlainFunc_def unaryFunctionType_def isInfix_def sizeToInt_def)
  from validateAttributes_rules [of infixPlainFunc] h
  have "snd (validateAttributes infixPlainFunc)
      = [Diag (LSquareLoc (Attrs infixPlainFunc)) invalid_infix_left_input]"
    by blast
  with h show ?thesis
    by (simp add: infixPlainFunc_def)
qed

text \<open>
  C1, as the spec states it, fails: on the one-argument function \<open>infixPlainFunc\<close>,
  which has infix data and is no operator, the infix-on-non-operator diagnostic is not
  reported.
\<close>

theorem validateAttributes_both_diagnostics_counterexample:
  "isInfix (Attrs infixPlainFunc) \<and> NumArguments (Ty infixPlainFunc) \<noteq> 2
   \<and> \<not> isOperator infixPlainFunc
   \<and> infix_left_not_an_operator \<notin> diagID ` set (snd (validateAttributes infixPlainFunc))"
  by (simp add: infixPlainFunc_def unaryFunctionType_def isInfix_def clearInfix_def
      validateAttributes_def sizeToInt_def)

text \<open>
  After \<open>validateAttributes\<close>, infix data is present only on a variable or function
  that is an operator and whose count of arguments, as computed, is 2; a declaration that
  violates one of the three conditions has its infix data cleared. For fewer than
  \<open>2^32\<close> fields a computed count of 2 means two fields.
\<close>

lemma validateAttributes_infix_kept:
  "(isInfix (Attrs (fst (validateAttributes D))) \<longrightarrow>
      (Kind (fst (validateAttributes D)) = VarDeclKind
         \<or> Kind (fst (validateAttributes D)) = FuncDeclKind)
      \<and> isOperator (fst (validateAttributes D))
      \<and> NumArguments (Ty (fst (validateAttributes D))) = 2)
   \<and> (\<not> ((Kind D = VarDeclKind \<or> Kind D = FuncDeclKind) \<and> isOperator D
           \<and> NumArguments (Ty D) = 2) \<longrightarrow>
        Infix (Attrs (fst (validateAttributes D))) = None)"
proof -
  have "Kind (fst (validateAttributes D)) = Kind D"
    and "isOperator (fst (validateAttributes D)) = isOperator D"
    by (subst validateAttributes_frame, simp)+
  then show ?thesis
    by (auto simp add: validateAttributes_Infix validateAttributes_Ty isInfix_def)
qed

lemma sizeToInt_two: "n < 4294967296 \<Longrightarrow> sizeToInt n = 2 \<Longrightarrow> n = 2"
  by (simp add: sizeToInt_def Let_def split: if_splits)

lemma validateAttributes_infix_two_fields:
  assumes "Ty D = FunctionType (TupleType Fields) Result"
    and "length Fields < 4294967296"
    and "isInfix (Attrs (fst (validateAttributes D)))"
  shows "length Fields = 2"
proof -
  have "NumArguments (Ty D) = 2"
    using validateAttributes_infix_kept [of D] assms(3)
    by (simp add: validateAttributes_Ty)
  then have "sizeToInt (length Fields) = 2"
    using assms(1) by simp
  with assms(2) show ?thesis
    by (rule sizeToInt_two)
qed

lemma validateAttributes_infix_function_type:
  assumes "isInfix (Attrs (fst (validateAttributes D)))"
  shows "\<exists>Fields Result. Ty D = FunctionType (TupleType Fields) Result"
proof -
  have "NumArguments (Ty D) = 2"
    using validateAttributes_infix_kept [of D] assms
    by (simp add: validateAttributes_Ty)
  then show ?thesis
    by (cases "Ty D" rule: NumArguments.cases) simp_all
qed

text \<open>
  C2 holds up to \<open>2^32\<close> fields only. The function type of \<open>wideOperatorFunc\<close> has
  \<open>2^32 + 2\<close> arguments; the count stored in the \<open>int\<close> is 2, no rule applies and the
  infix data stays, against the comment of the source that the input must be a two
  element tuple.
\<close>

theorem validateAttributes_truncated_count:
  "Ty wideOperatorFunc = FunctionType (TupleType (replicate 4294967298 unitType)) unitType
   \<and> length (replicate 4294967298 unitType) = 4294967298
   \<and> NumArguments (Ty wideOperatorFunc) = 2
   \<and> validateAttributes wideOperatorFunc = (wideOperatorFunc, [])
   \<and> Infix (Attrs (fst (validateAttributes wideOperatorFunc))) = Some 100"
proof -
  have n: "NumArguments (Ty wideOperatorFunc) = 2"
    by (simp add: wideOperatorFunc_def sizeToInt_def)
  have v: "validateAttributes wideOperatorFunc = (wideOperatorFunc, [])"
    unfolding validateAttributes_def n
    by (simp add: wideOperatorFunc_def isInfix_def)
  show ?thesis
    using n v by (simp add: wideOperatorFunc_def)
qed

subsection \<open>Facts about visitValueDecl\<close>

lemma visitValueDecl_with_init:
  assumes "validateType TC D = (False, T)"
    and "Init D = Some E"
    and "typeCheckExpression TC E (if T = DependentType then None else Some T) = (bad, E')"
  shows "visitValueDecl TC D =
    (if bad
     then (False, fst (validateAttributes (D\<lparr>Ty := T, Init := Some E'\<rparr>)),
           (if Kind D = VarDeclKind then [Diag (LocStart D) while_converting_var_init] else [])
           @ snd (validateAttributes (D\<lparr>Ty := T, Init := Some E'\<rparr>)))
     else (False, fst (validateAttributes (D\<lparr>Init := Some E', Ty := exprType E'\<rparr>)),
           snd (validateAttributes (D\<lparr>Init := Some E', Ty := exprType E'\<rparr>))))"
proof (cases "T = DependentType")
  case True
  with assms show ?thesis
    by (simp add: visitValueDecl_def Let_def case_prod_beta)
next
  case False
  with assms show ?thesis
    by (simp add: visitValueDecl_def Let_def case_prod_beta)
qed

text \<open>
  C3: when \<open>validateType\<close> fails, \<open>visitValueDecl\<close> clears the initializer and returns
  \<open>True\<close>; \<open>visitVarDecl\<close> and the dispatch on a variable then leave the name specifier
  and the attributes as they were and report nothing: neither \<open>validateVarName\<close> nor
  \<open>validateAttributes\<close> has run.
\<close>

theorem visitValueDecl_type_failure:
  assumes "fst (validateType TC D)"
  shows "visitValueDecl TC D = (True, D\<lparr>Ty := snd (validateType TC D), Init := None\<rparr>, [])
       \<and> visitVarDecl TC D = Inr (D\<lparr>Ty := snd (validateType TC D), Init := None\<rparr>, [])
       \<and> (Kind D = VarDeclKind \<longrightarrow>
            typeCheckDecl TC (ValueD D) =
              Inr (ValueD (D\<lparr>Ty := snd (validateType TC D), Init := None\<rparr>), []))"
proof -
  obtain T where T: "validateType TC D = (True, T)"
    using assms by (cases "validateType TC D") simp
  have v: "visitValueDecl TC D = (True, D\<lparr>Ty := T, Init := None\<rparr>, [])"
    by (simp add: visitValueDecl_def T)
  have w: "visitVarDecl TC D = Inr (D\<lparr>Ty := T, Init := None\<rparr>, [])"
    by (simp add: visitVarDecl_def v)
  show ?thesis
    by (simp add: v w T typeCheckDecl_def)
qed

theorem visitValueDecl_type_failure_witness:
  "fst (validateType (sampleTC validateTypeFails checkExpressionOk) destructuredVar)
   \<and> Kind destructuredVar = VarDeclKind
   \<and> typeCheckDecl (sampleTC validateTypeFails checkExpressionOk) (ValueD destructuredVar) =
       Inr (ValueD (destructuredVar\<lparr>Ty := ErrorType, Init := None\<rparr>), [])"
proof -
  have h: "fst (validateType (sampleTC validateTypeFails checkExpressionOk) destructuredVar)"
    by (simp add: sampleTC_def validateTypeFails_def)
  have k: "Kind destructuredVar = VarDeclKind"
    by (simp add: destructuredVar_def)
  have t: "snd (validateType (sampleTC validateTypeFails checkExpressionOk) destructuredVar)
      = ErrorType"
    by (simp add: sampleTC_def validateTypeFails_def)
  from visitValueDecl_type_failure [OF h] h k show ?thesis
    by (simp add: t)
qed

text \<open>
  C7: when \<open>typeCheckExpression\<close> fails on the initializer, the conversion diagnostic
  is reported exactly when the declaration is a \<open>VarDecl\<close>, and the declaration keeps
  the type \<open>validateType\<close> left in it.
\<close>

theorem visitValueDecl_init_failure:
  assumes "validateType TC D = (False, T)"
    and "Init D = Some E"
    and "typeCheckExpression TC E (if T = DependentType then None else Some T) = (True, E')"
  shows "fst (visitValueDecl TC D) = False
       \<and> Ty (fst (snd (visitValueDecl TC D))) = T
       \<and> (while_converting_var_init \<in> diagID ` set (snd (snd (visitValueDecl TC D)))
            \<longleftrightarrow> Kind D = VarDeclKind)
       \<and> snd (snd (visitValueDecl TC D)) =
           (if Kind D = VarDeclKind then [Diag (LocStart D) while_converting_var_init] else [])
           @ snd (validateAttributes (D\<lparr>Ty := T, Init := Some E'\<rparr>))"
  using validateAttributes_Ty [of "D\<lparr>Ty := T, Init := Some E'\<rparr>"]
    validateAttributes_no_conversion_diag [of "D\<lparr>Ty := T, Init := Some E'\<rparr>"]
  by (auto simp add: visitValueDecl_with_init [OF assms])

theorem visitValueDecl_init_failure_witness:
  "Ty (fst (snd (visitValueDecl (sampleTC validateTypeOk checkExpressionFails) destructuredVar)))
     = unitType
   \<and> while_converting_var_init \<in> diagID `
        set (snd (snd (visitValueDecl (sampleTC validateTypeOk checkExpressionFails)
                         destructuredVar)))
   \<and> Ty (fst (snd (visitValueDecl (sampleTC validateTypeOk checkExpressionFails) funcWithInit)))
     = unitType
   \<and> while_converting_var_init \<notin> diagID `
        set (snd (snd (visitValueDecl (sampleTC validateTypeOk checkExpressionFails)
                         funcWithInit)))"
proof -
  let ?TC = "sampleTC validateTypeOk checkExpressionFails"
  have unit: "unitType \<noteq> DependentType"
    by (simp add: unitType_def)
  have v1: "validateType ?TC destructuredVar = (False, unitType)"
    and i1: "Init destructuredVar = Some sampleInit"
    and k1: "Kind destructuredVar = VarDeclKind"
    by (simp_all add: sampleTC_def validateTypeOk_def destructuredVar_def)
  have v2: "validateType ?TC funcWithInit = (False, unitType)"
    and i2: "Init funcWithInit = Some sampleInit"
    and k2: "Kind funcWithInit \<noteq> VarDeclKind"
    by (simp_all add: sampleTC_def validateTypeOk_def funcWithInit_def)
  have c: "typeCheckExpression ?TC sampleInit
      (if unitType = DependentType then None else Some unitType) = (True, sampleInit)"
    by (simp add: sampleTC_def checkExpressionFails_def)
  from visitValueDecl_init_failure [OF v1 i1 c] visitValueDecl_init_failure [OF v2 i2 c] k1 k2
  show ?thesis
    by blast
qed

text \<open>
  C10: when \<open>typeCheckExpression\<close> succeeds on the initializer, the declaration's type
  is overwritten with the type of the initializer, whatever the declared type was.
\<close>

theorem visitValueDecl_init_success:
  assumes "validateType TC D = (False, T)"
    and "Init D = Some E"
    and "typeCheckExpression TC E (if T = DependentType then None else Some T) = (False, E')"
  shows "fst (visitValueDecl TC D) = False
       \<and> Ty (fst (snd (visitValueDecl TC D))) = exprType E'"
  using validateAttributes_Ty [of "D\<lparr>Init := Some E', Ty := exprType E'\<rparr>"]
  by (simp add: visitValueDecl_with_init [OF assms])

theorem visitValueDecl_init_success_witness:
  "validateType (sampleTC validateTypeOk checkExpressionOk) destructuredVar = (False, unitType)
   \<and> unitType \<noteq> DependentType
   \<and> typeCheckExpression (sampleTC validateTypeOk checkExpressionOk) sampleInit (Some unitType)
       = (False, sampleInit)
   \<and> Ty (fst (snd (visitValueDecl (sampleTC validateTypeOk checkExpressionOk) destructuredVar)))
       = binaryFunctionType
   \<and> binaryFunctionType \<noteq> unitType"
proof -
  let ?TC = "sampleTC validateTypeOk checkExpressionOk"
  have unit: "unitType \<noteq> DependentType" "binaryFunctionType \<noteq> unitType"
    by (simp_all add: unitType_def binaryFunctionType_def)
  have v: "validateType ?TC destructuredVar = (False, unitType)"
    and i: "Init destructuredVar = Some sampleInit"
    by (simp_all add: sampleTC_def validateTypeOk_def destructuredVar_def)
  have c: "typeCheckExpression ?TC sampleInit
      (if unitType = DependentType then None else Some unitType) = (False, sampleInit)"
    by (simp add: sampleTC_def checkExpressionOk_def)
  have e: "exprType sampleInit = binaryFunctionType"
    by (simp add: sampleInit_def)
  from visitValueDecl_init_success [OF v i c] v unit c e show ?thesis
    by simp
qed

subsection \<open>Element references\<close>

lemma visitElementRefDecl_resolved:
  "ERTy ERD \<noteq> DependentType \<Longrightarrow> visitElementRefDecl TC ERD = (ERD, [], [])"
  by (simp add: visitElementRefDecl_def)




subsection \<open>Facts about validateVarName\<close>

text \<open>
  The only way \<open>validateVarName\<close> fails to return is the member call through the null
  argument type of a single-element oneof; the loop never reads a field out of range.
\<close>

lemma validateVarName_errors:
  "validateVarName T N \<noteq> Inl (Unreachable s) \<and> validateVarName T N \<noteq> Inl IndexOutOfRange"
  "validateVarNameLoop Fs Ns \<noteq> Inl (Unreachable s)
   \<and> (length Ns \<le> length Fs \<longrightarrow> validateVarNameLoop Fs Ns \<noteq> Inl IndexOutOfRange)"
  by (induction T N and Fs Ns rule: validateVarName_validateVarNameLoop.induct)
     (auto split: option.splits Type.splits sum.splits if_splits prod.splits)






text \<open>
  Against a single-element oneof whose element has an argument type, a non-simple name
  specifier is checked against that argument type: as against the tuple when it is a
  tuple, and as a mismatch with a non-tuple otherwise. A specifier of two elements
  against a single-element oneof of a two-field tuple gives no mismatch when each element
  matches its field, as the simple names of \<open>(a, b)\<close> always do.
\<close>

lemma validateVarName_single_element_oneof:
  "validateVarName (OneOfType [Some Payload]) (ComplexName loc Elements) =
     (case Payload of
        TupleType Fields \<Rightarrow> validateVarName (TupleType Fields) (ComplexName loc Elements)
      | _ \<Rightarrow> Inr (True, [Diag loc (name_matches_nontuple Payload)]))
   \<and> (validateVarName T1 N1 = Inr (False, []) \<and> validateVarName T2 N2 = Inr (False, []) \<longrightarrow>
        validateVarName (OneOfType [Some (TupleType [T1, T2])]) (ComplexName loc [N1, N2]) =
          Inr (False, []))
   \<and> validateVarName (OneOfType [Some (TupleType [T1, T2])])
         (ComplexName loc [SimpleName l1 a, SimpleName l2 b]) = Inr (False, [])"
  by (simp split: Type.splits)

text \<open>
  On the types in which every single-element oneof has an argument type,
  \<open>validateVarName\<close> returns.
\<close>

lemma validateVarName_returns:
  "argumentsPresent T \<Longrightarrow> \<exists>r. validateVarName T N = Inr r"
  "(\<forall>F \<in> set Fs. argumentsPresent F) \<Longrightarrow> length Ns \<le> length Fs \<Longrightarrow>
   \<exists>r. validateVarNameLoop Fs Ns = Inr r"
proof (induction T N and Fs Ns rule: validateVarName_validateVarNameLoop.induct)
  case (1 T loc x)
  then show ?case by auto
next
  case (2 T loc Elements)
  show ?case
  proof (cases "T = DependentType")
    case True
    then show ?thesis by auto
  next
    case False
    from "2.prems" obtain T' where u: "singleElementArgument T = Some T'"
      and p: "argumentsPresent T'"
      by (cases T rule: singleElementArgument.cases) auto
    show ?thesis
    proof (cases "\<exists>Fields. T' = TupleType Fields \<and> length Elements = length Fields")
      case True
      then obtain Fields where t: "T' = TupleType Fields"
        and l: "length Elements = length Fields"
        by blast
      have "\<exists>r. validateVarNameLoop Fields Elements = Inr r"
        using "2.IH" [OF False u t] l p t by simp
      with False u t l show ?thesis by auto
    next
      case no: False
      with False u show ?thesis
        by (cases T') auto
    qed
  qed
next
  case (3 Fields)
  then show ?case by auto
next
  case (4 N Ns)
  then show ?case by simp
next
  case (5 F Fields N Ns)
  from "5.prems" have f: "argumentsPresent F"
    and fs: "\<forall>F \<in> set Fields. argumentsPresent F"
    and l: "length Ns \<le> length Fields"
    by simp_all
  from "5.IH"(1) [OF f] obtain m ds where h: "validateVarName F N = Inr (m, ds)"
    by fastforce
  show ?case
  proof (cases m)
    case True
    with h show ?thesis by auto
  next
    case False
    from "5.IH"(2) [OF h [symmetric, THEN sym] refl False fs l]
    obtain r where "validateVarNameLoop Fields Ns = Inr r"
      by blast
    with h False show ?thesis
      by (cases r) auto
  qed
qed

text \<open>
  C6 fails on a single-element oneof whose element has no argument type: the type is
  replaced by the null argument type and the next member call goes through it, so
  nothing is compared and no result is returned, although the function asserts on entry
  that its type is never null.
\<close>

theorem validateVarName_null_argument:
  "singleElementArgument (OneOfType [None]) = None
   \<and> validateVarName (OneOfType [None]) (ComplexName 71 [SimpleName 72 ''e'']) =
       Inl NullTypeDeref"
  by simp

subsection \<open>Variables and the dispatch\<close>

lemma visitValueDecl_NestedName:
  "NestedName (fst (snd (visitValueDecl TC D))) = NestedName D"
proof -
  have a: "NestedName (fst (validateAttributes X)) = NestedName X" for X
    by (subst validateAttributes_frame) simp
  show ?thesis
    by (simp add: visitValueDecl_def Let_def case_prod_beta a split: option.splits)
qed

lemma visitVarDecl_errors: "visitVarDecl TC D \<noteq> Inl (Unreachable s)"
  using validateVarName_errors(1)
  by (auto simp add: visitVarDecl_def Let_def case_prod_beta split: option.splits sum.splits)

text \<open>
  C4, as the code has it. Whenever \<open>visitVarDecl\<close> returns, the variable has the type
  \<open>visitValueDecl\<close> left in it, the type \<open>validateVarName\<close> is called with, and its
  name specifier is the one it had or none. When \<open>visitValueDecl\<close> reports the
  declaration invalid, or there is no name specifier, nothing is matched and the
  declaration is returned as \<open>visitValueDecl\<close> left it. Otherwise, on a type in which
  every single-element oneof has an argument type, \<open>validateVarName\<close> returns and so
  does \<open>visitVarDecl\<close>: the name specifier is removed on a mismatch and kept otherwise,
  and nothing else of the declaration changes.
\<close>

theorem visitVarDecl_pattern_and_type:
  assumes "visitValueDecl TC D = (invalid, D1, ds1)"
  shows "NestedName D1 = NestedName D
       \<and> (invalid \<or> NestedName D = None \<longrightarrow> visitVarDecl TC D = Inr (D1, ds1))
       \<and> (\<not> invalid \<and> NestedName D = Some N \<and> argumentsPresent (Ty D1) \<longrightarrow>
            (\<exists>mismatch ds2. validateVarName (Ty D1) N = Inr (mismatch, ds2)
               \<and> visitVarDecl TC D =
                   Inr (D1\<lparr>NestedName := (if mismatch then None else Some N)\<rparr>, ds1 @ ds2)))
       \<and> (visitVarDecl TC D = Inr (D', ds) \<longrightarrow>
            Ty D' = Ty D1 \<and> (NestedName D' = NestedName D \<or> NestedName D' = None))"
proof -
  have n: "NestedName D1 = NestedName D"
    using visitValueDecl_NestedName [of TC D] assms by simp
  have a: "invalid \<or> NestedName D = None \<longrightarrow> visitVarDecl TC D = Inr (D1, ds1)"
    using assms n by (auto simp add: visitVarDecl_def)
  have b: "\<exists>mismatch ds2. validateVarName (Ty D1) N = Inr (mismatch, ds2)
      \<and> visitVarDecl TC D =
          Inr (D1\<lparr>NestedName := (if mismatch then None else Some N)\<rparr>, ds1 @ ds2)"
    if h: "\<not> invalid" "NestedName D = Some N" "argumentsPresent (Ty D1)"
  proof -
    from validateVarName_returns(1) [OF h(3), of N]
    obtain mismatch ds2 where r: "validateVarName (Ty D1) N = Inr (mismatch, ds2)"
      by fastforce
    have "D1\<lparr>NestedName := NestedName D1\<rparr> = D1"
      by simp
    with n h(2) have same: "D1\<lparr>NestedName := Some N\<rparr> = D1"
      by simp
    have "visitVarDecl TC D =
        Inr (D1\<lparr>NestedName := (if mismatch then None else Some N)\<rparr>, ds1 @ ds2)"
      using assms n h r same by (simp add: visitVarDecl_def)
    with r show ?thesis
      by blast
  qed
  have c: "visitVarDecl TC D = Inr (D', ds) \<longrightarrow>
      Ty D' = Ty D1 \<and> (NestedName D' = NestedName D \<or> NestedName D' = None)"
    using assms n
    by (auto simp add: visitVarDecl_def split: if_splits option.splits sum.splits prod.splits)
  from n a b c show ?thesis
    by blast
qed

theorem visitVarDecl_pattern_and_type_witness:
  "visitVarDecl (sampleTC validateTypeOk checkExpressionOk) destructuredVar =
     Inr (destructuredVar\<lparr>Ty := binaryFunctionType,
            Attrs := \<lparr>LSquareLoc = 15, Infix = None\<rparr>, NestedName := None\<rparr>,
          [Diag 20 infix_left_not_an_operator,
           Diag 21 (name_matches_nontuple binaryFunctionType)])
   \<and> visitVarDecl (sampleTC validateTypeOk checkExpressionOk)
        (destructuredVar\<lparr>Ty := TupleType [unitType, unitType], Init := None\<rparr>) =
     Inr (destructuredVar\<lparr>Ty := TupleType [unitType, unitType], Init := None,
            Attrs := \<lparr>LSquareLoc = 15, Infix = None\<rparr>\<rparr>,
          [Diag 15 invalid_infix_left_input])"
proof -
  let ?TC = "sampleTC validateTypeOk checkExpressionOk"
  let ?N = "ComplexName 21 [SimpleName 22 ''a'', SimpleName 23 ''b'']"
  let ?D1 = "destructuredVar\<lparr>Ty := binaryFunctionType,
               Attrs := \<lparr>LSquareLoc = 15, Infix = None\<rparr>\<rparr>"
  let ?P = "destructuredVar\<lparr>Ty := TupleType [unitType, unitType], Init := None\<rparr>"
  let ?P1 = "destructuredVar\<lparr>Ty := TupleType [unitType, unitType], Init := None,
               Attrs := \<lparr>LSquareLoc = 15, Infix = None\<rparr>\<rparr>"
  have v: "visitValueDecl ?TC destructuredVar =
      (False, ?D1, [Diag 20 infix_left_not_an_operator])"
    by (simp add: visitValueDecl_def sampleTC_def validateTypeOk_def checkExpressionOk_def
        destructuredVar_def sampleInit_def unitType_def binaryFunctionType_def
        validateAttributes_def isInfix_def clearInfix_def sizeToInt_def)
  have n: "NestedName destructuredVar = Some ?N"
    by (simp add: destructuredVar_def)
  have p: "argumentsPresent (Ty ?D1)"
    by (simp add: binaryFunctionType_def unitType_def)
  have m: "validateVarName (Ty ?D1) ?N =
      Inr (True, [Diag 21 (name_matches_nontuple binaryFunctionType)])"
    by (simp add: binaryFunctionType_def)
  from visitVarDecl_pattern_and_type [OF v, of ?N] n p
  obtain mm dd where r: "validateVarName (Ty ?D1) ?N = Inr (mm, dd)"
    and w: "visitVarDecl ?TC destructuredVar =
      Inr (?D1\<lparr>NestedName := (if mm then None else Some ?N)\<rparr>,
           [Diag 20 infix_left_not_an_operator] @ dd)"
    by blast
  from r m have "mm = True" and "dd = [Diag 21 (name_matches_nontuple binaryFunctionType)]"
    by simp_all
  with w have detached: "visitVarDecl ?TC destructuredVar =
     Inr (?D1\<lparr>NestedName := None\<rparr>,
          [Diag 20 infix_left_not_an_operator,
           Diag 21 (name_matches_nontuple binaryFunctionType)])"
    by simp
  have v': "visitValueDecl ?TC ?P = (False, ?P1, [Diag 15 invalid_infix_left_input])"
    by (simp add: visitValueDecl_def sampleTC_def validateTypeOk_def
        destructuredVar_def validateAttributes_def isInfix_def clearInfix_def)
  have n': "NestedName ?P = Some ?N"
    by (simp add: destructuredVar_def)
  have p': "argumentsPresent (Ty ?P1)"
    by (simp add: unitType_def)
  have m': "validateVarName (Ty ?P1) ?N = Inr (False, [])"
    by simp
  from visitVarDecl_pattern_and_type [OF v', of ?N] n' p'
  obtain mm' dd' where r': "validateVarName (Ty ?P1) ?N = Inr (mm', dd')"
    and w': "visitVarDecl ?TC ?P =
      Inr (?P1\<lparr>NestedName := (if mm' then None else Some ?N)\<rparr>,
           [Diag 15 invalid_infix_left_input] @ dd')"
    by blast
  from r' m' have "mm' = False" and "dd' = []"
    by simp_all
  with w' have "visitVarDecl ?TC ?P =
      Inr (?P1\<lparr>NestedName := Some ?N\<rparr>, [Diag 15 invalid_infix_left_input])"
    by simp
  moreover have "?P1\<lparr>NestedName := Some ?N\<rparr> = ?P1"
    by (simp add: destructuredVar_def)
  ultimately have attached: "visitVarDecl ?TC ?P = Inr (?P1, [Diag 15 invalid_infix_left_input])"
    by simp
  from detached attached show ?thesis
    by simp
qed

text \<open>
  C4, as the spec states it, fails. When \<open>validateType\<close> fails on \<open>destructuredVar\<close>,
  its name specifier \<open>(a, b)\<close> stays attached to a declaration of the error type,
  which it does not match. On \<open>emptyOneOfVar\<close>, whose type is a single-element oneof
  without argument type, the check does not return.
\<close>

theorem visitVarDecl_pattern_counterexample:
  "visitVarDecl (sampleTC validateTypeFails checkExpressionOk) destructuredVar =
     Inr (destructuredVar\<lparr>Ty := ErrorType, Init := None\<rparr>, [])
   \<and> NestedName (destructuredVar\<lparr>Ty := ErrorType, Init := None\<rparr>) =
       Some (ComplexName 21 [SimpleName 22 ''a'', SimpleName 23 ''b''])
   \<and> validateVarName ErrorType (ComplexName 21 [SimpleName 22 ''a'', SimpleName 23 ''b'']) =
       Inr (True, [Diag 21 (name_matches_nontuple ErrorType)])
   \<and> visitVarDecl (sampleTC validateTypeOk checkExpressionOk) emptyOneOfVar =
       Inl NullTypeDeref"
  by (simp add: visitVarDecl_def visitValueDecl_def sampleTC_def validateTypeFails_def
      validateTypeOk_def destructuredVar_def emptyOneOfVar_def validateAttributes_def
      isInfix_def)

text \<open>
  C9: on an \<open>ArgDecl\<close> the dispatch ends in \<open>llvm_unreachable\<close>: no declaration and no
  diagnostic is returned. No other declaration reaches it: when no \<open>ArgDecl\<close> is given to
  \<open>typeCheckDecl\<close>, the result is never \<open>Unreachable\<close>.
\<close>

theorem typeCheckDecl_ArgDecl:
  "(Kind V = ArgDeclKind \<longrightarrow>
      typeCheckDecl TC (ValueD V) =
        Inl (Unreachable ''ArgDecls should never exist in a statement''))
   \<and> ((\<exists>s. typeCheckDecl TC D = Inl (Unreachable s)) \<longrightarrow>
        (\<exists>V'. D = ValueD V' \<and> Kind V' = ArgDeclKind))"
  using visitVarDecl_errors
  by (auto simp add: typeCheckDecl_def case_prod_beta
      split: Decl.splits ValueDeclKind.splits sum.splits)

theorem typeCheckDecl_ArgDecl_witness:
  "Kind argumentDecl = ArgDeclKind
   \<and> typeCheckDecl (sampleTC validateTypeOk checkExpressionOk) (ValueD argumentDecl) =
       Inl (Unreachable ''ArgDecls should never exist in a statement'')"
proof -
  have k: "Kind argumentDecl = ArgDeclKind"
    by (simp add: argumentDecl_def)
  from typeCheckDecl_ArgDecl [of argumentDecl "sampleTC validateTypeOk checkExpressionOk"
      "ValueD argumentDecl"] k
  show ?thesis
    by blast
qed

end
